theory Spec2Isabelle
  imports Main "HOL-Library.Sublist" "HOL-Library.Char_ord" "HOL-Library.List_Lexorder"
begin

section \<open>Text\<close>

text \<open>
  The scripts work on Python \<open>str\<close> values: SQL text, YAML keys, column names. A
  \<^typ>\<open>string\<close> models such a value, each \<^typ>\<open>char\<close> standing for one code point
  below 256. Python's \<open>needle in haystack\<close> on strings is \<^const>\<open>sublist\<close>, and
  \<open>sorted\<close> on a list of strings is \<^const>\<open>sort\<close> in the lexicographic order on
  code points.
\<close>

definition lower_char :: "char \<Rightarrow> char" where
  \<comment> \<open>\<open>str.lower\<close> on one code point below 256: A-Z and the accented capitals
      U+00C0..U+00DE (the multiplication sign U+00D7 apart) move up by 32.\<close>
  "lower_char c =
     (let n = (of_char c :: nat)
      in if (65 \<le> n \<and> n \<le> 90) \<or> (192 \<le> n \<and> n \<le> 222 \<and> n \<noteq> 215)
         then char_of (n + 32) else c)"

definition lower :: "string \<Rightarrow> string" where
  "lower s = map lower_char s"

definition upper_char :: "char \<Rightarrow> char" where
  \<comment> \<open>\<open>str.upper\<close> on one code point below 256: a-z and the accented small letters
      U+00E0..U+00FE (the division sign U+00F7 apart) move down by 32. The micro sign,
      the sharp s and y with diaeresis, whose capitals lie beyond 255 or take two
      characters, are left as they are; no section code contains them.\<close>
  "upper_char c =
     (let n = (of_char c :: nat)
      in if (97 \<le> n \<and> n \<le> 122) \<or> (224 \<le> n \<and> n \<le> 254 \<and> n \<noteq> 247)
         then char_of (n - 32) else c)"

definition upper :: "string \<Rightarrow> string" where
  "upper s = map upper_char s"

definition is_digit :: "char \<Rightarrow> bool" where
  \<comment> \<open>\<open>\d\<close>: the decimal digits; below 256 these are 0-9.\<close>
  "is_digit c = (let n = (of_char c :: nat) in 48 \<le> n \<and> n \<le> 57)"

definition is_space :: "char \<Rightarrow> bool" where
  \<comment> \<open>\<open>\s\<close>: tab to carriage return, the separators U+001C..U+001F, space,
      U+0085 and U+00A0.\<close>
  "is_space c =
     (let n = (of_char c :: nat)
      in (9 \<le> n \<and> n \<le> 13) \<or> (28 \<le> n \<and> n \<le> 32) \<or> n = 133 \<or> n = 160)"

definition is_word :: "char \<Rightarrow> bool" where
  \<comment> \<open>\<open>\w\<close>: the underscore and every alphanumeric code point; below 256 these are
      0-9, A-Z, a-z, the ordinal indicators, superscript digits, micro sign and
      fractions, and the accented letters.\<close>
  "is_word c =
     (let n = (of_char c :: nat)
      in (48 \<le> n \<and> n \<le> 57) \<or> (65 \<le> n \<and> n \<le> 90) \<or> n = 95 \<or> (97 \<le> n \<and> n \<le> 122)
         \<or> n = 170 \<or> n = 178 \<or> n = 179 \<or> n = 181 \<or> n = 185 \<or> n = 186
         \<or> (188 \<le> n \<and> n \<le> 190) \<or> (192 \<le> n \<and> n \<le> 214) \<or> (216 \<le> n \<and> n \<le> 246)
         \<or> 248 \<le> n)"

section \<open>The regular expressions of the patchers\<close>

text \<open>
  The patchers locate their insertion points with \<open>re.findall\<close>, \<open>re.search\<close> and
  \<open>re.finditer\<close>. Their patterns are sequences of single-character items, possibly
  under a greedy \<open>*\<close> or \<open>+\<close>; one pattern puts a negative lookahead behind a
  character. The matcher below is the backtracking matcher of \<open>re\<close> on such patterns: a
  greedy item first takes one more character and falls back to the rest of the
  pattern only when that fails.
\<close>

datatype cls =
    Lit char      \<comment> \<open>the character itself\<close>
  | LitI char     \<comment> \<open>the character under \<open>re.IGNORECASE\<close>\<close>
  | NotLit char   \<comment> \<open>\<open>[^c]\<close>\<close>
  | Digit         \<comment> \<open>\<open>\d\<close>\<close>
  | Word          \<comment> \<open>\<open>\w\<close>\<close>
  | Space         \<comment> \<open>\<open>\s\<close>\<close>

fun cls_match :: "cls \<Rightarrow> char \<Rightarrow> bool" where
  "cls_match (Lit a) c = (c = a)"
| "cls_match (LitI a) c = (lower_char c = lower_char a)"
| "cls_match (NotLit a) c = (c \<noteq> a)"
| "cls_match Digit c = is_digit c"
| "cls_match Word c = is_word c"
| "cls_match Space c = is_space c"

datatype 'a item = One 'a | Star 'a | Plus 'a

text \<open>
  \<open>match_items m p s\<close> matches the pattern \<open>p\<close> at the start of \<open>s\<close> and returns the
  number of characters the match takes. \<open>m a c r\<close> says whether the one-character
  item \<open>a\<close> accepts the character \<open>c\<close> when \<open>r\<close> is the text after it.
\<close>

fun match_items :: "('a \<Rightarrow> char \<Rightarrow> string \<Rightarrow> bool) \<Rightarrow> 'a item list \<Rightarrow> string \<Rightarrow> nat option" where
  "match_items m [] s = Some 0"
| "match_items m (One a # p) [] = None"
| "match_items m (One a # p) (c # s) =
     (if m a c s then map_option Suc (match_items m p s) else None)"
| "match_items m (Plus a # p) [] = None"
| "match_items m (Plus a # p) (c # s) =
     (if m a c s then map_option Suc (match_items m (Star a # p) s) else None)"
| "match_items m (Star a # p) [] = match_items m p []"
| "match_items m (Star a # p) (c # s) =
     (if m a c s
      then (case match_items m (Star a # p) s of
              Some n \<Rightarrow> Some (Suc n)
            | None \<Rightarrow> match_items m p (c # s))
      else match_items m p (c # s))"

text \<open>One character, one of two alternatives, or a character not followed by a pattern.\<close>

datatype atom =
    Ch cls
  | Either atom atom              \<comment> \<open>\<open>(?:a|b)\<close>, both of one character\<close>
  | Unless atom "cls item list"   \<comment> \<open>\<open>a(?!p)\<close>\<close>

fun atom_match :: "atom \<Rightarrow> char \<Rightarrow> string \<Rightarrow> bool" where
  "atom_match (Ch k) c r = cls_match k c"
| "atom_match (Either a b) c r = (atom_match a c r \<or> atom_match b c r)"
| "atom_match (Unless a p) c r = (atom_match a c r \<and> match_items (\<lambda>k c r. cls_match k c) p r = None)"

definition lit :: "string \<Rightarrow> atom item list" where
  \<comment> \<open>A literal stretch of a pattern.\<close>
  "lit s = map (\<lambda>c. One (Ch (Lit c))) s"

definition lit_ignorecase :: "string \<Rightarrow> atom item list" where
  "lit_ignorecase s = map (\<lambda>c. One (Ch (LitI c))) s"

fun search_from :: "atom item list \<Rightarrow> string \<Rightarrow> nat \<Rightarrow> (nat \<times> nat) option" where
  \<comment> \<open>The leftmost match in \<open>s\<close>, which starts at offset \<open>i\<close> of the whole text.\<close>
  "search_from p s i =
     (case match_items atom_match p s of
        Some n \<Rightarrow> Some (i, i + n)
      | None \<Rightarrow> (case s of [] \<Rightarrow> None | c # s' \<Rightarrow> search_from p s' (Suc i)))"

definition re_search :: "atom item list \<Rightarrow> string \<Rightarrow> (nat \<times> nat) option" where
  \<comment> \<open>\<open>re.search\<close>: \<open>(match.start(), match.end())\<close> of the leftmost match.\<close>
  "re_search p s = search_from p s 0"

function finditer_from :: "atom item list \<Rightarrow> string \<Rightarrow> nat \<Rightarrow> (nat \<times> nat) list" where
  "finditer_from p s i =
     (if length s < i then []
      else (case match_items atom_match p (drop i s) of
              Some n \<Rightarrow> (i, i + n) # finditer_from p s (if n = 0 then Suc i else i + n)
            | None \<Rightarrow> finditer_from p s (Suc i)))"
  by pat_completeness auto
termination
  by (relation "measure (\<lambda>(p, s, i). Suc (length s) - i)") auto

definition re_finditer :: "atom item list \<Rightarrow> string \<Rightarrow> (nat \<times> nat) list" where
  \<comment> \<open>\<open>re.finditer\<close>: the spans of the non-overlapping matches, left to right. Every
      pattern used here takes at least one character.\<close>
  "re_finditer p s = finditer_from p s 0"

section \<open>The mapping store\<close>

text \<open>
  \<open>config/field_mappings.yaml\<close> is read with \<open>yaml.safe_load\<close>. Under each mapping
  key lies a dict whose keys are \<open>'standard_fields'\<close> and the years, a year being a
  string or, when written bare, an integer. A year's value is a dict from standard
  field to source expression; a key left without a value is null, and a list can
  stand where a dict is expected. Dicts are association lists in insertion order.
\<close>

datatype error = ValueError string | AttributeError | TypeError

datatype ykey = KStr string | KInt int

fun str_nat :: "nat \<Rightarrow> string" where
  "str_nat n = (if n < 10 then [char_of (48 + n)] else str_nat (n div 10) @ [char_of (48 + n mod 10)])"

declare str_nat.simps [simp del]

definition str_int :: "int \<Rightarrow> string" where
  \<comment> \<open>\<open>str(n)\<close> of an integer\<close>
  "str_int i = (if i < 0 then ''-'' @ str_nat (nat (- i)) else str_nat (nat i))"

text \<open>
  A value of a year's mapping is any YAML value. The code looks at such a value in four
  ways only: whether it is null, whether it equals the string \<open>'null'\<close>, its truth
  value, and its text in an f-string. Null, strings, integers and booleans are
  modelled as they are; a float, a list or a dict is given by its truth value and its
  text.
\<close>

datatype yval = YNull | YStr string | YInt int | YBool bool | YOther bool string

fun truthy :: "yval \<Rightarrow> bool" where
  \<comment> \<open>\<open>bool(v)\<close>\<close>
  "truthy YNull = False"
| "truthy (YStr s) = (s \<noteq> [])"
| "truthy (YInt n) = (n \<noteq> 0)"
| "truthy (YBool b) = b"
| "truthy (YOther t s) = t"

fun py_str :: "yval \<Rightarrow> string" where
  \<comment> \<open>\<open>f"{v}"\<close>\<close>
  "py_str YNull = ''None''"
| "py_str (YStr s) = s"
| "py_str (YInt n) = str_int n"
| "py_str (YBool b) = (if b then ''True'' else ''False'')"
| "py_str (YOther t s) = s"


datatype entry = ENull | EFields "string list" | EYear "(string \<times> yval) list"

type_synonym mappings = "(ykey \<times> entry) list"

definition dict_get :: "('k \<times> 'v) list \<Rightarrow> 'k \<Rightarrow> 'v \<Rightarrow> 'v" where
  \<comment> \<open>\<open>d.get(k, dflt)\<close>\<close>
  "dict_get d k dflt = (case map_of d k of Some v \<Rightarrow> v | None \<Rightarrow> dflt)"

definition entry_get :: "entry \<Rightarrow> string \<Rightarrow> error + yval" where
  \<comment> \<open>\<open>year_mappings.get(standard_field)\<close>: only a dict has \<open>get\<close>.\<close>
  "entry_get e k = (case e of EYear d \<Rightarrow> Inr (dict_get d k YNull) | _ \<Rightarrow> Inl AttributeError)"

definition entry_iter :: "entry \<Rightarrow> error + string list" where
  \<comment> \<open>\<open>for standard_field in ...\<close>: a list gives its elements, a dict its keys, and
      null is not iterable.\<close>
  "entry_iter e = (case e of EFields fs \<Rightarrow> Inr fs | EYear d \<Rightarrow> Inr (map fst d) | ENull \<Rightarrow> Inl TypeError)"

definition entry_falsy :: "entry \<Rightarrow> bool" where
  \<comment> \<open>\<open>not year_fields\<close>\<close>
  "entry_falsy e = (case e of ENull \<Rightarrow> True | EFields fs \<Rightarrow> fs = [] | EYear d \<Rightarrow> d = [])"

definition str_join :: "string \<Rightarrow> string list \<Rightarrow> string" where
  \<comment> \<open>\<open>sep.join(xs)\<close>\<close>
  "str_join sep xs = (case xs of [] \<Rightarrow> [] | x # r \<Rightarrow> x @ concat (map (\<lambda>y. sep @ y) r))"

definition quote :: string where
  \<comment> \<open>The single quote of an SQL string literal.\<close>
  "quote = [CHR 0x27]"

definition backtick :: string where
  \<comment> \<open>The backquote around a table name.\<close>
  "backtick = [CHR 0x60]"

definition last2 :: "string \<Rightarrow> string" where
  \<comment> \<open>\<open>year[-2:]\<close>\<close>
  "last2 s = drop (length s - 2) s"

subsection \<open>int() on a string\<close>

definition is_int_space :: "char \<Rightarrow> bool" where
  \<comment> \<open>The whitespace \<open>int()\<close> strips from both ends of its argument.\<close>
  "is_int_space c = (let n = (of_char c :: nat) in (9 \<le> n \<and> n \<le> 13) \<or> n = 32 \<or> n = 133 \<or> n = 160)"

definition digit_val :: "char \<Rightarrow> int" where
  "digit_val c = int (of_char c) - 48"

definition decimal :: "string \<Rightarrow> int" where
  \<comment> \<open>The number a string of digits denotes.\<close>
  "decimal s = foldl (\<lambda>a c. 10 * a + digit_val c) 0 s"

fun int_digits :: "int \<Rightarrow> string \<Rightarrow> int option" where
  \<comment> \<open>The digits after the first one; single underscores may separate digits.\<close>
  "int_digits acc [] = Some acc"
| "int_digits acc [c] = (if is_digit c then Some (10 * acc + digit_val c) else None)"
| "int_digits acc (c # d # s) =
     (if is_digit c then int_digits (10 * acc + digit_val c) (d # s)
      else if c = CHR ''_'' \<and> is_digit d then int_digits (10 * acc + digit_val d) s
      else None)"

definition int_literal :: "string \<Rightarrow> int option" where
  "int_literal s = (case s of [] \<Rightarrow> None | c # r \<Rightarrow> if is_digit c then int_digits (digit_val c) r else None)"

definition py_int :: "string \<Rightarrow> error + int" where
  \<comment> \<open>\<open>int(s)\<close> in base 10: surrounding whitespace, an optional sign, digits. The
      interpreter's limit on the length of a decimal string is not modelled; the
      message of the \<open>ValueError\<close> is shortened.\<close>
  "py_int s =
     (let t = rev (dropWhile is_int_space (rev (dropWhile is_int_space s)));
          r = (case t of
                 [] \<Rightarrow> None
               | c # u \<Rightarrow> if c = CHR ''-'' then map_option uminus (int_literal u)
                          else if c = CHR ''+'' then int_literal u
                          else int_literal t)
      in case r of None \<Rightarrow> Inl (ValueError ''invalid literal for int()'') | Some n \<Rightarrow> Inr n)"

section \<open>load\_eavs\_year.py: EAVSLoader\<close>

record EAVSLoader =
  year :: string
  year_short :: string
  config :: "(string \<times> mappings) list"

definition EAVSLoader_init :: "string \<Rightarrow> (string \<times> mappings) list \<Rightarrow> EAVSLoader" where
  \<comment> \<open>\<open>__init__\<close>, with the loaded YAML document as second argument.\<close>
  "EAVSLoader_init y cfg = \<lparr>year = y, year_short = last2 y, config = cfg\<rparr>"

definition loader_table_name :: "EAVSLoader \<Rightarrow> string \<Rightarrow> string" where
  \<comment> \<open>\<open>create_external_tables\<close>: \<open>f"eavs_county_{self.year_short}_{section}"\<close>\<close>
  "loader_table_name self section = ''eavs_county_'' @ year_short self @ ''_'' @ section"

definition loader_table_id :: "EAVSLoader \<Rightarrow> string \<Rightarrow> string" where
  \<comment> \<open>\<open>f"{PROJECT_ID}.eavs_{self.year}.{table_name}"\<close>\<close>
  "loader_table_id self section =
     ''eavs-392800'' @ ''.eavs_'' @ year self @ ''.'' @ loader_table_name self section"

definition config_map :: "(string \<times> string) list" where
  "config_map =
     [(''a_reg'', ''registration_mappings''),
      (''b_uocava'', ''uocava_mappings''),
      (''c_mail'', ''mail_mappings''),
      (''f1_participation'', ''participation_mappings'')]"

definition loader_year_fields :: "mappings \<Rightarrow> string \<Rightarrow> error + entry" where
  \<comment> \<open>\<open>mappings.get(self.year, mappings.get(int(self.year), {}))\<close>: the inner call is
      an argument, so \<open>int\<close> runs whether or not the string key is there.\<close>
  "loader_year_fields m y =
     (case py_int y of
        Inl e \<Rightarrow> Inl e
      | Inr n \<Rightarrow> Inr (dict_get m (KStr y) (dict_get m (KInt n) (EYear []))))"

definition cte_field :: "yval \<Rightarrow> string \<Rightarrow> string" where
  \<comment> \<open>\<open>if source_field and source_field != 'null'\<close>\<close>
  "cte_field source_field standard_field =
     (if truthy source_field \<and> source_field \<noteq> YStr ''null''
      then py_str source_field @ '' AS '' @ standard_field
      else ''NULL AS '' @ standard_field)"

fun cte_selections :: "entry \<Rightarrow> string list \<Rightarrow> string list \<Rightarrow> error + string list" where
  \<comment> \<open>The loop over the standard fields, \<open>selections\<close> being the list built so far.\<close>
  "cte_selections year_fields [] selections = Inr selections"
| "cte_selections year_fields (standard_field # rest) selections =
     (if standard_field = ''election_year'' then cte_selections year_fields rest selections
      else (case entry_get year_fields standard_field of
              Inl e \<Rightarrow> Inl e
            | Inr source_field \<Rightarrow>
                cte_selections year_fields rest (selections @ [cte_field source_field standard_field])))"

definition year_cte_text :: "EAVSLoader \<Rightarrow> string \<Rightarrow> string list \<Rightarrow> string" where
  \<comment> \<open>The f-string of the CTE, \<open>selections_str\<close> being \<open>',\n    '.join(selections)\<close>.\<close>
  "year_cte_text self section selections =
     ''  '' @ section @ ''_'' @ year self @ '' AS (\<newline>  SELECT\<newline>    ''
     @ str_join '',\<newline>    '' selections
     @ ''\<newline>  FROM\<newline>    '' @ backtick @ ''eavs_'' @ year self @ ''.''
     @ loader_table_name self section @ backtick @ ''\<newline>  )''"

definition generate_year_cte :: "EAVSLoader \<Rightarrow> string \<Rightarrow> error + string option" where
  \<comment> \<open>\<open>_generate_year_cte\<close>; \<open>Inr None\<close> is \<open>return None\<close>.\<close>
  "generate_year_cte self section =
     (case map_of config_map section of
        None \<Rightarrow> Inr None
      | Some config_key \<Rightarrow>
         (case map_of (config self) config_key of
            None \<Rightarrow> Inr None
          | Some m \<Rightarrow>
             (case loader_year_fields m (year self) of
                Inl e \<Rightarrow> Inl e
              | Inr year_fields \<Rightarrow>
                 if entry_falsy year_fields then Inr None
                 else (case entry_iter (dict_get m (KStr ''standard_fields'') (EFields [])) of
                         Inl e \<Rightarrow> Inl e
                       | Inr standard_fields \<Rightarrow>
                          (case cte_selections year_fields standard_fields
                                  [quote @ year self @ quote @ '' AS election_year''] of
                             Inl e \<Rightarrow> Inl e
                           | Inr selections \<Rightarrow> Inr (Some (year_cte_text self section selections)))))))"

definition year_cte_pattern :: "string \<Rightarrow> atom item list" where
  \<comment> \<open>\<open>section + r"_(\d{4}) AS \("\<close>. The section is one of the keys of
      \<open>view_mapping\<close>, made of letters, digits and underscores, so it stands for itself
      in the pattern.\<close>
  "year_cte_pattern section = lit (section @ ''_'') @ replicate 4 (One (Ch Digit)) @ lit '' AS (''"

definition insert_pattern :: "string \<Rightarrow> string \<Rightarrow> atom item list" where
  \<comment> \<open>\<open>f"({section}_{last_year}" + r" AS \([^)]+\))"\<close>\<close>
  "insert_pattern section last_year =
     lit (section @ ''_'' @ last_year @ '' AS ('') @ [Plus (Ch (NotLit CHR '')''))] @ lit '')''"

definition union_pattern :: "atom item list" where
  \<comment> \<open>\<open>r"(,\s*union_all as \()"\<close>\<close>
  "union_pattern = lit '','' @ [Star (Ch Space)] @ lit ''union_all as (''"

definition last_select_pattern :: "atom item list" where
  \<comment> \<open>\<open>r"(FROM\s+\w+_\d{4})\s*\)"\<close>\<close>
  "last_select_pattern =
     lit ''FROM'' @ [Plus (Ch Space), Plus (Ch Word)] @ lit ''_'' @ replicate 4 (One (Ch Digit))
     @ [Star (Ch Space)] @ lit '')''"

definition findall_years :: "string \<Rightarrow> string \<Rightarrow> string list" where
  \<comment> \<open>\<open>re.findall(pattern, existing_sql)\<close>: the text of the group \<open>(\d{4})\<close> of every
      match, four characters after the section and the underscore.\<close>
  "findall_years section existing_sql =
     map (\<lambda>(start, end). take 4 (drop (start + length section + 1) existing_sql))
         (re_finditer (year_cte_pattern section) existing_sql)"

definition insert_at :: "nat \<Rightarrow> string \<Rightarrow> string \<Rightarrow> string" where
  \<comment> \<open>\<open>sql[:pos] + text + sql[pos:]\<close>\<close>
  "insert_at pos text sql = take pos sql @ text @ drop pos sql"

definition insert_cte_into_view :: "EAVSLoader \<Rightarrow> string \<Rightarrow> string \<Rightarrow> string \<Rightarrow> string" where
  \<comment> \<open>\<open>_insert_cte_into_view\<close>\<close>
  "insert_cte_into_view self existing_sql new_cte section =
     (let years = findall_years section existing_sql;
          sql1 =
            (if years \<noteq> [] then
               (let last_year = last (sort years)
                in case re_search (insert_pattern section last_year) existing_sql of
                     Some (start, end) \<Rightarrow> insert_at end ('',\<newline>'' @ new_cte) existing_sql
                   | None \<Rightarrow> existing_sql)
             else
               (case re_search union_pattern existing_sql of
                  Some (start, end) \<Rightarrow> insert_at start ('',\<newline>'' @ new_cte) existing_sql
                | None \<Rightarrow> existing_sql));
          union_addition = ''\<newline>UNION ALL\<newline>SELECT * FROM '' @ section @ ''_'' @ year self;
          matches = re_finditer last_select_pattern sql1
      in if matches \<noteq> [] then insert_at (snd (last matches)) union_addition sql1 else sql1)"

datatype status = AlreadyIncludes | NoCTE | Updated | Failed error

definition update_union_view :: "EAVSLoader \<Rightarrow> string \<Rightarrow> string \<Rightarrow> status \<times> string" where
  \<comment> \<open>The body of the loop of \<open>update_union_views\<close> for one section whose file was
      uploaded: from the view's query text to what is logged and the view's query text
      afterwards. The warehouse calls \<open>get_table\<close> and \<open>update_table\<close> are taken to
      succeed; an exception leaves the view as it was.\<close>
  "update_union_view self section existing_sql =
     (if sublist (section @ ''_'' @ year self) existing_sql then (AlreadyIncludes, existing_sql)
      else (case generate_year_cte self section of
              Inl e \<Rightarrow> (Failed e, existing_sql)
            | Inr None \<Rightarrow> (NoCTE, existing_sql)
            | Inr (Some new_cte) \<Rightarrow>
                if new_cte = [] then (NoCTE, existing_sql)
                else (Updated, insert_cte_into_view self existing_sql new_cte section)))"

section \<open>load\_denominators\_2024.py: update\_acs\_population\_union\_view\<close>

definition acs_new_cte :: string where
  "acs_new_cte =
     ''  acs_2024 AS (\<newline>  SELECT\<newline>    '' @ quote @ ''2024'' @ quote @ '' AS election_year,\<newline>''
     @ ''    GEOID,\<newline>    lntitle AS LNTITLE,\<newline>''
     @ ''    TRIM(SPLIT(geoname, '' @ quote @ '','' @ quote @ '')[SAFE_OFFSET(1)]) AS state,\<newline>''
     @ ''    geoname AS county_name,\<newline>    tot_est AS acs_total_population,\<newline>''
     @ ''    adu_est AS acs_adult_population,\<newline>    cit_est AS acs_citizen_population,\<newline>''
     @ ''    cvap_est AS acs_cvap_population\<newline>  FROM\<newline>''
     @ ''    '' @ backtick @ ''eavs-392800.acs.acs_2019-2023_county_cvap'' @ backtick @ '' )''"

definition acs_2021_pattern :: "atom item list" where
  \<comment> \<open>\<open>r"(acs_2021 AS \((?:[^)]|\)(?!\s*,))*\)\s*,)"\<close>\<close>
  "acs_2021_pattern =
     lit ''acs_2021 AS (''
     @ [Star (Either (Ch (NotLit CHR '')''))
                     (Unless (Ch (Lit CHR '')'')) [Star Space, One (Lit CHR '','')]))]
     @ lit '')'' @ [Star (Ch Space)] @ lit '',''"

definition acs_union_pattern :: "atom item list" where
  \<comment> \<open>\<open>r"(SELECT\s+\*\s+FROM\s+acs_2021)"\<close> under \<open>re.IGNORECASE\<close>\<close>
  "acs_union_pattern =
     lit_ignorecase ''SELECT'' @ [Plus (Ch Space)] @ lit_ignorecase ''*'' @ [Plus (Ch Space)]
     @ lit_ignorecase ''FROM'' @ [Plus (Ch Space)] @ lit_ignorecase ''acs_2021''"

datatype outcome =
    Includes2024                 \<comment> \<open>logged: already includes 2024 data\<close>
  | ViewUpdated                  \<comment> \<open>\<open>update_table\<close> called with the new text\<close>
  | NotFound string string       \<comment> \<open>error logged; file name and text saved for manual review\<close>

definition update_acs_population_union_view :: "string \<Rightarrow> outcome \<times> string" where
  \<comment> \<open>From the view's query text to the outcome and the view's query text afterwards.
      The warehouse calls are taken to succeed.\<close>
  "update_acs_population_union_view existing_sql =
     (if sublist (quote @ ''2024'' @ quote) existing_sql \<or> sublist ''acs_2024'' existing_sql
      then (Includes2024, existing_sql)
      else (case re_search acs_2021_pattern existing_sql of
              Some (start, insert_pos) \<Rightarrow>
                (let updated_sql = insert_at insert_pos (''\<newline>'' @ acs_new_cte @ '','') existing_sql
                 in case re_search acs_union_pattern updated_sql of
                      Some (ustart, union_pos) \<Rightarrow>
                        (ViewUpdated,
                         insert_at union_pos
                           ''\<newline>    UNION ALL\<newline>    SELECT\<newline>      *\<newline>    FROM\<newline>      acs_2024''
                           updated_sql)
                    | None \<Rightarrow> (NotFound ''acs_population_union_MANUAL.sql'' updated_sql, existing_sql))
            | None \<Rightarrow> (NotFound ''acs_population_union_current.sql'' existing_sql, existing_sql)))"

section \<open>generate\_dynamic\_unions.py: DynamicUnionGenerator\<close>

record DynamicUnionGenerator =
  gconfig :: "(string \<times> mappings) list"   \<comment> \<open>\<open>self.config\<close>, the mapping keys of the document\<close>
  project_id :: string
  analytics_dataset :: string

definition str_of_key :: "ykey \<Rightarrow> string" where
  \<comment> \<open>\<open>str(year)\<close> of a key of the mappings\<close>
  "str_of_key k = (case k of KStr s \<Rightarrow> s | KInt n \<Rightarrow> str_int n)"

definition get_all_years :: "DynamicUnionGenerator \<Rightarrow> string \<Rightarrow> string list" where
  "get_all_years self mapping_key =
     (let m = dict_get (gconfig self) mapping_key []
      in sort (map str_of_key (filter (\<lambda>k. k \<noteq> KStr ''standard_fields'') (map fst m))))"

definition get_standard_fields :: "DynamicUnionGenerator \<Rightarrow> string \<Rightarrow> entry" where
  "get_standard_fields self mapping_key =
     dict_get (dict_get (gconfig self) mapping_key []) (KStr ''standard_fields'') (EFields [])"

definition get_dataset_name :: "string \<Rightarrow> string" where
  "get_dataset_name y = ''eavs_'' @ y"

definition get_table_name :: "string \<Rightarrow> string \<Rightarrow> string" where
  \<comment> \<open>\<open>section_code.upper().replace('_', '_')\<close>: the replacement changes nothing.\<close>
  "get_table_name y section_code =
     (let year_suffix = last2 y; section_suffix = upper section_code
      in ''eavs_county_'' @ year_suffix @ ''_'' @ section_suffix)"

definition generator_year_mappings :: "mappings \<Rightarrow> string \<Rightarrow> error + entry" where
  \<comment> \<open>\<open>mappings.get(int(year), mappings.get(year, {}))\<close>, as written in
      \<open>generate_union_select\<close> and in \<open>generate_view_sql\<close> of
      generate\_union\_views.py.\<close>
  "generator_year_mappings m y =
     (case py_int y of
        Inl e \<Rightarrow> Inl e
      | Inr n \<Rightarrow> Inr (dict_get m (KInt n) (dict_get m (KStr y) (EYear []))))"

definition base_fields :: "string list" where
  \<comment> \<open>The members of the set literal \<open>base_fields\<close>.\<close>
  "base_fields = [''fips'', ''election_year'', ''state'', ''county'', ''state_abbr'', ''county_name'']"

definition field_select :: "yval \<Rightarrow> string \<Rightarrow> string" where
  \<comment> \<open>\<open>if source_field == 'null' or source_field is None\<close>\<close>
  "field_select source_field standard_field =
     (if source_field = YStr ''null'' \<or> source_field = YNull
      then ''NULL as '' @ standard_field
      else py_str source_field @ '' as '' @ standard_field)"

fun select_loop :: "entry \<Rightarrow> string list \<Rightarrow> string list \<Rightarrow> error + string list" where
  \<comment> \<open>The loop over the standard fields, \<open>selects\<close> being the list built so far.\<close>
  "select_loop year_mappings [] selects = Inr selects"
| "select_loop year_mappings (standard_field # rest) selects =
     (if standard_field \<in> set base_fields then select_loop year_mappings rest selects
      else (case entry_get year_mappings standard_field of
              Inl e \<Rightarrow> Inl e
            | Inr source_field \<Rightarrow>
                select_loop year_mappings rest (selects @ [field_select source_field standard_field])))"

definition union_selects :: "DynamicUnionGenerator \<Rightarrow> string \<Rightarrow> string \<Rightarrow> error + string list" where
  \<comment> \<open>The list \<open>selects\<close> of \<open>generate_union_select\<close> when the loop is over.\<close>
  "union_selects self y mapping_key =
     (case generator_year_mappings (dict_get (gconfig self) mapping_key []) y of
        Inl e \<Rightarrow> Inl e
      | Inr year_mappings \<Rightarrow>
         (case entry_iter (get_standard_fields self mapping_key) of
            Inl e \<Rightarrow> Inl e
          | Inr standard_fields \<Rightarrow>
              select_loop year_mappings standard_fields
                [''fips'', quote @ y @ quote @ '' as election_year'', ''state'', ''county'',
                 ''state_abbr'', ''county_name'']))"

definition from_clause :: "DynamicUnionGenerator \<Rightarrow> string \<Rightarrow> string \<Rightarrow> string" where
  \<comment> \<open>\<open>f"`{self.project_id}.{dataset_name}.{table_name}`"\<close>\<close>
  "from_clause self y section_code =
     backtick @ project_id self @ ''.'' @ get_dataset_name y @ ''.'' @ get_table_name y section_code
     @ backtick"

definition generate_union_select ::
    "DynamicUnionGenerator \<Rightarrow> string \<Rightarrow> string \<Rightarrow> string \<Rightarrow> error + string" where
  "generate_union_select self y mapping_key section_code =
     (case union_selects self y mapping_key of
        Inl e \<Rightarrow> Inl e
      | Inr selects \<Rightarrow>
          Inr (''-- '' @ y @ '' Data\<newline>SELECT \<newline>  '' @ str_join '',\<newline>  '' selects
               @ ''\<newline>FROM '' @ from_clause self y section_code))"

fun collect_blocks ::
    "DynamicUnionGenerator \<Rightarrow> string \<Rightarrow> string \<Rightarrow> string list \<Rightarrow> string list \<times> string list
     \<Rightarrow> string list \<times> string list" where
  \<comment> \<open>The loop over the years with its \<open>try\<close>: the years warned about and
      \<open>union_blocks\<close>, both as built so far.\<close>
  "collect_blocks self mapping_key section_code [] acc = acc"
| "collect_blocks self mapping_key section_code (y # years) (warned, union_blocks) =
     (case generate_union_select self y mapping_key section_code of
        Inr select_block \<Rightarrow>
          collect_blocks self mapping_key section_code years (warned, union_blocks @ [select_block])
      | Inl e \<Rightarrow> collect_blocks self mapping_key section_code years (warned @ [y], union_blocks))"

definition view_header :: "DynamicUnionGenerator \<Rightarrow> string \<Rightarrow> string" where
  "view_header self view_name =
     ''-- EAVS '' @ view_name @ '' Union View\<newline>''
     @ ''-- Automatically generated from config - all years included dynamically\<newline>''
     @ ''-- DO NOT EDIT - regenerate using scripts/generate_dynamic_unions.py\<newline>\<newline>''
     @ ''CREATE OR REPLACE VIEW '' @ backtick @ project_id self @ ''.'' @ analytics_dataset self
     @ ''.'' @ view_name @ backtick @ '' AS\<newline>\<newline>''"

definition generate_full_union_view ::
    "DynamicUnionGenerator \<Rightarrow> string \<Rightarrow> string \<Rightarrow> string \<Rightarrow> string list \<times> (error + string)" where
  \<comment> \<open>The years whose warning was printed, and the exception raised or the SQL returned.\<close>
  "generate_full_union_view self mapping_key section_code view_name =
     (let years = get_all_years self mapping_key
      in if years = [] then ([], Inl (ValueError (''No years found for '' @ mapping_key)))
         else (let (warned, union_blocks) = collect_blocks self mapping_key section_code years ([], [])
               in if union_blocks = []
                  then (warned, Inl (ValueError (''Could not generate any union blocks for '' @ mapping_key)))
                  else (warned, Inr (view_header self view_name
                                     @ str_join ''\<newline>\<newline>UNION ALL\<newline>\<newline>'' union_blocks))))"







section \<open>postload\_validation.py: ValidationResult\<close>

record ValidationResult =
  check_name :: string
  passed :: bool
  warnings :: "string list"
  errors :: "string list"
  info :: "string list"

definition init :: "string \<Rightarrow> ValidationResult" where
  "init name = \<lparr>check_name = name, passed = True, warnings = [], errors = [], info = []\<rparr>"

definition add_warning :: "string \<Rightarrow> ValidationResult \<Rightarrow> ValidationResult" where
  "add_warning message r = r\<lparr>warnings := warnings r @ [message]\<rparr>"

definition add_error :: "string \<Rightarrow> ValidationResult \<Rightarrow> ValidationResult" where
  "add_error message r = r\<lparr>errors := errors r @ [message], passed := False\<rparr>"

definition add_info :: "string \<Rightarrow> ValidationResult \<Rightarrow> ValidationResult" where
  "add_info message r = r\<lparr>info := info r @ [message]\<rparr>"

text \<open>A check is a sequence of calls of the three methods on one result object.\<close>

datatype call = AddInfo string | AddWarning string | AddError string

fun apply_call :: "ValidationResult \<Rightarrow> call \<Rightarrow> ValidationResult" where
  "apply_call r (AddInfo m) = add_info m r"
| "apply_call r (AddWarning m) = add_warning m r"
| "apply_call r (AddError m) = add_error m r"

fun is_add_error :: "call \<Rightarrow> bool" where
  "is_add_error (AddError m) = True"
| "is_add_error c = False"

definition apply_calls :: "call list \<Rightarrow> ValidationResult \<Rightarrow> ValidationResult" where
  "apply_calls cs r = foldl apply_call r cs"

section \<open>validate\_mappings.py: find\_similar\_field\<close>

definition patterns :: "(string \<times> string list) list" where
  \<comment> \<open>The dict literal of the source, in its insertion order.\<close>
  "patterns =
     [(''total'', [''total'', ''tot'']),
      (''reject'', [''reject'', ''denied'', ''invalid'']),
      (''count'', [''count'', ''cnt'', ''total'']),
      (''mail'', [''mail'', ''absentee'', ''post'']),
      (''uocava'', [''uocava'', ''military'', ''overseas''])]"

fun search_alternatives :: "string list \<Rightarrow> string list \<Rightarrow> string option" where
  \<comment> \<open>\<open>for alt in alternatives: for field in available_fields: if alt in field.lower(): return field\<close>\<close>
  "search_alternatives [] available_fields = None"
| "search_alternatives (alt # alternatives) available_fields =
     (case find (\<lambda>field. sublist alt (lower field)) available_fields of
        Some field \<Rightarrow> Some field
      | None \<Rightarrow> search_alternatives alternatives available_fields)"

fun search_patterns :: "(string \<times> string list) list \<Rightarrow> string \<Rightarrow> string list \<Rightarrow> string option" where
  \<comment> \<open>\<open>for pattern, alternatives in patterns.items(): if pattern in target_lower: ...\<close>\<close>
  "search_patterns [] target_lower available_fields = None"
| "search_patterns ((pattern, alternatives) # ps) target_lower available_fields =
     (if sublist pattern target_lower
      then (case search_alternatives alternatives available_fields of
              Some field \<Rightarrow> Some field
            | None \<Rightarrow> search_patterns ps target_lower available_fields)
      else search_patterns ps target_lower available_fields)"

definition find_similar_field :: "string \<Rightarrow> string list \<Rightarrow> string option" where
  \<comment> \<open>\<open>None\<close> is Python's \<open>return None\<close>.\<close>
  "find_similar_field target available_fields =
     (let target_lower = lower target
      in case find (\<lambda>field. lower field = target_lower) available_fields of
           Some field \<Rightarrow> Some field
         | None \<Rightarrow>
             (case find (\<lambda>field. sublist target_lower (lower field) \<or> sublist (lower field) target_lower)
                     available_fields of
                Some field \<Rightarrow> Some field
              | None \<Rightarrow> search_patterns patterns target_lower available_fields))"

section \<open>Example mapping stores\<close>

definition example_config :: "(string \<times> mappings) list" where
  \<comment> \<open>A registration section with two mapped fields, the year 2024 written bare.\<close>
  "example_config =
     [(''registration_mappings'',
       [(KStr ''standard_fields'', EFields [''fips'', ''election_year'', ''total_reg'']),
        (KInt 2024, EYear [(''fips'', YStr ''FIPSCode''), (''total_reg'', YStr ''A1a'')])])]"

definition empty_source_config :: "(string \<times> mappings) list" where
  \<comment> \<open>As above, with an empty source expression for \<open>total_reg\<close> in 2024.\<close>
  "empty_source_config =
     [(''registration_mappings'',
       [(KStr ''standard_fields'', EFields [''fips'', ''election_year'', ''total_reg'']),
        (KInt 2024, EYear [(''fips'', YStr ''FIPSCode''), (''total_reg'', YStr [])])])]"

definition falsy_source_config :: "(string \<times> mappings) list" where
  \<comment> \<open>As above, with \<open>total_reg: 0\<close> and \<open>active_reg: false\<close> for 2024.\<close>
  "falsy_source_config =
     [(''registration_mappings'',
       [(KStr ''standard_fields'', EFields [''fips'', ''election_year'', ''total_reg'', ''active_reg'']),
        (KInt 2024, EYear [(''fips'', YStr ''FIPSCode''), (''total_reg'', YInt 0),
                           (''active_reg'', YBool False)])])]"

definition example_generator :: DynamicUnionGenerator where
  \<comment> \<open>The scenario of the specification: a mapping key \<open>X\<close> with the years 2016 and
      2018, and two entries from which no block can be generated.\<close>
  "example_generator =
     \<lparr>gconfig =
        [(''X'',
          [(KStr ''standard_fields'', EFields [''fips'', ''election_year'', ''state'', ''county'', ''a'', ''b'']),
           (KInt 2016, EYear [(''a'', YStr ''col_a''), (''b'', YStr ''null'')]),
           (KInt 2018, EYear [(''a'', YStr ''col_a2''), (''b'', YStr ''col_b2'')]),
           (KInt 2020, ENull),
           (KStr ''notes'', EYear [])])],
      project_id = ''eavs-392800'',
      analytics_dataset = ''eavs_analytics''\<rparr>"


section \<open>Validation results\<close>

lemma passed_apply_call: "passed (apply_call r c) = (passed r \<and> \<not> is_add_error c)"
  by (cases c) (simp_all add: add_info_def add_warning_def add_error_def)

lemma passed_foldl:
  "passed (foldl apply_call r cs) = (passed r \<and> list_all (\<lambda>c. \<not> is_add_error c) cs)"
  by (induction cs arbitrary: r) (auto simp: passed_apply_call)

text \<open>
  C9. Starting from a freshly constructed result, after any sequence of
  \<open>add_info\<close>, \<open>add_warning\<close> and \<open>add_error\<close> calls the flag \<open>passed\<close> is true
  exactly when no call in the sequence was \<open>add_error\<close>; and from any result object
  the flag after the calls is its value before, unless \<open>add_error\<close> was called.
  Warnings and info messages never change it.
\<close>

theorem passed_iff_no_add_error:
  "passed (apply_calls cs (init name)) = (\<not> (\<exists>c \<in> set cs. is_add_error c))
   \<and> passed (apply_calls cs r) = (passed r \<and> \<not> (\<exists>c \<in> set cs. is_add_error c))"
  by (simp add: apply_calls_def passed_foldl init_def list_all_iff)

theorem passed_iff_no_add_error_witness:
  "passed (apply_calls [AddWarning ''low count'', AddInfo ''3100 rows''] (init ''Row Count''))
   \<and> \<not> passed (apply_calls [AddWarning ''low count'', AddError ''empty''] (init ''Row Count''))"
  using passed_iff_no_add_error [of "[AddWarning ''low count'', AddInfo ''3100 rows'']" "''Row Count''" "init ''Row Count''"]
    passed_iff_no_add_error [of "[AddWarning ''low count'', AddError ''empty'']" "''Row Count''" "init ''Row Count''"]
  by simp

section \<open>Fuzzy field suggestions\<close>

lemma find_in_set: "find P xs = Some x \<Longrightarrow> x \<in> set xs"
  by (induction xs) (auto split: if_splits)

lemma search_alternatives_in_set:
  "search_alternatives alts fs = Some f \<Longrightarrow> f \<in> set fs"
  by (induction alts) (auto split: option.splits dest: find_in_set)

lemma search_patterns_in_set:
  "search_patterns ps t fs = Some f \<Longrightarrow> f \<in> set fs"
  by (induction ps t fs rule: search_patterns.induct)
     (auto split: option.splits if_splits dest: search_alternatives_in_set)

text \<open>
  C10. Whatever \<open>find_similar_field\<close> suggests is an element of the list of
  available fields it was given; otherwise it returns \<open>None\<close>.
\<close>

theorem find_similar_field_available:
  "find_similar_field target available_fields = Some field \<Longrightarrow> field \<in> set available_fields"
  unfolding find_similar_field_def Let_def
  by (auto split: option.splits dest: find_in_set search_patterns_in_set)

theorem find_similar_field_available_witness:
  "find_similar_field ''Total_Reg'' [''A1a'', ''total_reg''] = Some ''total_reg''
   \<and> ''total_reg'' \<in> set [''A1a'', ''total_reg'']"
proof -
  have h: "find_similar_field ''Total_Reg'' [''A1a'', ''total_reg''] = Some ''total_reg''"
    by code_simp
  show ?thesis using h find_similar_field_available [OF h] by simp
qed

section \<open>Patching a view inserts text and nothing else\<close>

lemma subseq_insert_at: "subseq s (insert_at n t s)"
proof -
  have "subseq (take n s @ drop n s) (take n s @ t @ drop n s)"
    by (intro list_emb_append_mono subseq_order.order_refl list_emb_append2)
  then show ?thesis by (simp add: insert_at_def)
qed

lemma insert_at_split: "\<exists>u w. s = u @ w \<and> insert_at n t s = u @ t @ w"
  unfolding insert_at_def by (metis append_take_drop_id)

lemma sublist_insert_at: "sublist m t \<Longrightarrow> sublist m (insert_at n t s)"
  unfolding insert_at_def
  by (meson sublist_appendI sublist_order.order_trans)

lemma two_insertions:
  assumes "s = u @ w"
  shows "\<exists>u' v' w' x y. s = u' @ v' @ w' \<and> insert_at q b (u @ a @ w) = u' @ x @ v' @ y @ w'"
proof -
  consider "q \<le> length u" | "length u < q" "q \<le> length u + length a" | "length u + length a < q"
    by linarith
  then show ?thesis
  proof cases
    case 1
    have "insert_at q b (u @ a @ w) = take q u @ b @ drop q u @ a @ w"
      using 1 by (simp add: insert_at_def)
    moreover have "s = take q u @ drop q u @ w" using assms by simp
    ultimately show ?thesis by blast
  next
    case 2
    have "insert_at q b (u @ a @ w) = u @ (take (q - length u) a @ b @ drop (q - length u) a) @ [] @ [] @ w"
      using 2 by (simp add: insert_at_def)
    moreover have "s = u @ [] @ w" using assms by simp
    ultimately show ?thesis by blast
  next
    case 3
    let ?k = "q - length u - length a"
    have "insert_at q b (u @ a @ w) = u @ a @ take ?k w @ b @ drop ?k w"
      using 3 by (simp add: insert_at_def)
    moreover have "s = u @ take ?k w @ drop ?k w" using assms by simp
    ultimately show ?thesis by blast
  qed
qed

text \<open>
  Whatever the patterns match, the result is the text after at most one insertion of
  the CTE, followed by at most one insertion of the union arm.
\<close>

lemma insert_cte_shape:
  "\<exists>sql1. (sql1 = s \<or> (\<exists>p. sql1 = insert_at p ('',\<newline>'' @ cte) s))
     \<and> (insert_cte_into_view self s cte section = sql1
        \<or> (\<exists>q. insert_cte_into_view self s cte section =
                 insert_at q (''\<newline>UNION ALL\<newline>SELECT * FROM '' @ section @ ''_'' @ year self) sql1))"
  unfolding insert_cte_into_view_def Let_def
  by (auto split: option.splits)

text \<open>
  C8. The string returned by \<open>_insert_cte_into_view\<close> contains the existing SQL as
  a subsequence: the existing SQL is cut in at most two places, \<open>u\<close>, \<open>v\<close>, \<open>w\<close>
  being its pieces in order, and the result is \<open>u\<close>, inserted text, \<open>v\<close>, inserted
  text, \<open>w\<close>. Nothing is deleted or reordered.
\<close>

theorem insert_cte_into_view_only_inserts:
  "subseq existing_sql (insert_cte_into_view self existing_sql new_cte section)
   \<and> (\<exists>u v w x y. existing_sql = u @ v @ w
          \<and> insert_cte_into_view self existing_sql new_cte section = u @ x @ v @ y @ w)"
proof -
  define ins where "ins = '',\<newline>'' @ new_cte"
  define arm where "arm = ''\<newline>UNION ALL\<newline>SELECT * FROM '' @ section @ ''_'' @ year self"
  define res where "res = insert_cte_into_view self existing_sql new_cte section"
  obtain sql1 where 1: "sql1 = existing_sql \<or> (\<exists>p. sql1 = insert_at p ins existing_sql)"
    and 2: "res = sql1 \<or> (\<exists>q. res = insert_at q arm sql1)"
    using insert_cte_shape [of existing_sql new_cte self "section"]
    unfolding ins_def arm_def res_def by blast
  have s1: "subseq existing_sql sql1"
    using 1 subseq_insert_at by auto
  have "subseq sql1 res"
    using 2 subseq_insert_at by auto
  with s1 have sub: "subseq existing_sql res"
    using subseq_order.order_trans by blast
  obtain u w a where 3: "existing_sql = u @ w" "sql1 = u @ a @ w"
  proof -
    from 1 show ?thesis
    proof
      assume "sql1 = existing_sql"
      then have "existing_sql = [] @ existing_sql" "sql1 = [] @ [] @ existing_sql" by simp_all
      then show ?thesis using that by blast
    next
      assume "\<exists>p. sql1 = insert_at p ins existing_sql"
      then show ?thesis using insert_at_split that by metis
    qed
  qed
  have "\<exists>u' v' w' x y. existing_sql = u' @ v' @ w' \<and> res = u' @ x @ v' @ y @ w'"
    using 2
  proof
    assume "res = sql1"
    then have "existing_sql = u @ [] @ w" "res = u @ a @ [] @ [] @ w" using 3 by simp_all
    then show ?thesis by blast
  next
    assume "\<exists>q. res = insert_at q arm sql1"
    then show ?thesis using two_insertions [OF 3(1)] 3(2) by metis
  qed
  with sub show ?thesis unfolding res_def by blast
qed

section \<open>Patching twice\<close>

lemma insert_cte_marker:
  assumes "sublist (section @ ''_'' @ year self) cte"
  shows "insert_cte_into_view self s cte section = s
         \<or> sublist (section @ ''_'' @ year self) (insert_cte_into_view self s cte section)"
proof -
  define mk where "mk = section @ ''_'' @ year self"
  define arm where "arm = ''\<newline>UNION ALL\<newline>SELECT * FROM '' @ mk"
  define ins where "ins = '',\<newline>'' @ cte"
  have arm: "sublist mk arm" unfolding arm_def by (rule sublist_append_leftI)
  have "sublist cte ins" unfolding ins_def by (rule sublist_append_leftI)
  with assms have cte: "sublist mk ins"
    unfolding mk_def using sublist_order.order_trans by blast
  obtain sql1 where 1: "sql1 = s \<or> (\<exists>p. sql1 = insert_at p ins s)"
    and 2: "insert_cte_into_view self s cte section = sql1
            \<or> (\<exists>q. insert_cte_into_view self s cte section = insert_at q arm sql1)"
    using insert_cte_shape [of s cte self "section"] unfolding arm_def mk_def ins_def by blast
  from 2 show ?thesis
  proof
    assume r: "insert_cte_into_view self s cte section = sql1"
    from 1 show ?thesis
      using r cte sublist_insert_at unfolding mk_def by auto
  next
    assume "\<exists>q. insert_cte_into_view self s cte section = insert_at q arm sql1"
    then show ?thesis using arm sublist_insert_at unfolding mk_def by auto
  qed
qed

lemma year_cte_text_marker:
  "sublist (section @ ''_'' @ year self) (year_cte_text self section selections)"
proof -
  have "\<exists>r. year_cte_text self section selections = ''  '' @ (section @ ''_'' @ year self) @ r"
    unfolding year_cte_text_def by simp
  then show ?thesis by (metis sublist_appendI)
qed

lemma generate_year_cte_marker:
  assumes "generate_year_cte self section = Inr (Some cte)"
  shows "sublist (section @ ''_'' @ year self) cte"
proof -
  from assms obtain selections where "cte = year_cte_text self section selections"
    unfolding generate_year_cte_def
    by (auto split: option.splits sum.splits if_splits)
  then show ?thesis using year_cte_text_marker by blast
qed

lemma update_union_view_marker:
  "snd (update_union_view self section s) = s
   \<or> sublist (section @ ''_'' @ year self) (snd (update_union_view self section s))"
proof (cases "generate_year_cte self section")
  case (Inl e)
  then show ?thesis by (simp add: update_union_view_def)
next
  case (Inr r)
  show ?thesis
  proof (cases r)
    case None
    with Inr show ?thesis by (simp add: update_union_view_def)
  next
    case (Some cte)
    with Inr have "sublist (section @ ''_'' @ year self) cte"
      using generate_year_cte_marker by blast
    then have "insert_cte_into_view self s cte section = s
         \<or> sublist (section @ ''_'' @ year self) (insert_cte_into_view self s cte section)"
      by (rule insert_cte_marker)
    with Inr Some show ?thesis by (auto simp: update_union_view_def)
  qed
qed

lemma update_union_view_present:
  "sublist (section @ ''_'' @ year self) s \<Longrightarrow> update_union_view self section s = (AlreadyIncludes, s)"
  by (simp add: update_union_view_def)

lemma update_union_view_twice:
  "snd (update_union_view self section (snd (update_union_view self section s)))
   = snd (update_union_view self section s)"
  using update_union_view_marker [of self "section" s] update_union_view_present
  by (metis snd_conv)

lemma acs_arm_marker:
  "sublist ''acs_2024'' (insert_at q ''\<newline>    UNION ALL\<newline>    SELECT\<newline>      *\<newline>    FROM\<newline>      acs_2024'' t)"
proof -
  have "sublist ''acs_2024'' (''\<newline>    UNION ALL\<newline>    SELECT\<newline>      *\<newline>    FROM\<newline>      '' @ ''acs_2024'')"
    by (rule sublist_append_leftI)
  then have "sublist ''acs_2024'' ''\<newline>    UNION ALL\<newline>    SELECT\<newline>      *\<newline>    FROM\<newline>      acs_2024''"
    by simp
  then show ?thesis by (rule sublist_insert_at)
qed

lemma update_acs_marker:
  "snd (update_acs_population_union_view s) = s
   \<or> sublist ''acs_2024'' (snd (update_acs_population_union_view s))"
  unfolding update_acs_population_union_view_def Let_def
  using acs_arm_marker by (auto split: option.splits)

lemma update_acs_present:
  "sublist (quote @ ''2024'' @ quote) s \<or> sublist ''acs_2024'' s
   \<Longrightarrow> update_acs_population_union_view s = (Includes2024, s)"
  by (auto simp: update_acs_population_union_view_def)

lemma update_acs_twice:
  "snd (update_acs_population_union_view (snd (update_acs_population_union_view s)))
   = snd (update_acs_population_union_view s)"
  using update_acs_marker [of s] update_acs_present
  by (metis snd_conv)

text \<open>
  C2. When the marker of the year is already in the view's SQL, the patch leaves the
  SQL as it is and reports that the year is already included; and patching a second
  time gives the SQL of the first patch, so no year block and no union arm is ever
  added twice. For the loader the marker is \<open><section>_<year>\<close>; for the 2024
  denominators it is the quoted year literal or \<open>acs_2024\<close>.
\<close>

theorem patch_idempotent:
  "(sublist (section @ ''_'' @ year self) existing_sql
      \<longrightarrow> update_union_view self section existing_sql = (AlreadyIncludes, existing_sql))
   \<and> snd (update_union_view self section (snd (update_union_view self section existing_sql)))
       = snd (update_union_view self section existing_sql)
   \<and> (sublist (quote @ ''2024'' @ quote) existing_sql \<or> sublist ''acs_2024'' existing_sql
      \<longrightarrow> update_acs_population_union_view existing_sql = (Includes2024, existing_sql))
   \<and> snd (update_acs_population_union_view (snd (update_acs_population_union_view existing_sql)))
       = snd (update_acs_population_union_view existing_sql)"
  using update_union_view_present update_union_view_twice update_acs_present update_acs_twice
  by blast


theorem patch_idempotent_witness:
  "update_union_view (EAVSLoader_init ''2024'' []) ''a_reg'' ''a_reg_2024 AS (x)''
     = (AlreadyIncludes, ''a_reg_2024 AS (x)'')
   \<and> update_acs_population_union_view ''acs_2024 AS (x)'' = (Includes2024, ''acs_2024 AS (x)'')"
proof -
  have 1: "sublist (''a_reg'' @ ''_'' @ year (EAVSLoader_init ''2024'' [])) ''a_reg_2024 AS (x)''"
    by code_simp
  have 2: "sublist ''acs_2024'' ''acs_2024 AS (x)''"
    by code_simp
  show ?thesis
    using 1 2
      patch_idempotent [of "''a_reg''" "EAVSLoader_init ''2024'' []" "''a_reg_2024 AS (x)''"]
      patch_idempotent [of "''a_reg''" "EAVSLoader_init ''2024'' []" "''acs_2024 AS (x)''"]
    by blast
qed

section \<open>A patch whose insertion point is not found\<close>

text \<open>
  The denominators patcher changes the view only when both of its insertion points
  are found: otherwise it saves a file for manual review and the view keeps its text.
\<close>

lemma update_acs_not_found_keeps_view:
  "update_acs_population_union_view s = (NotFound file text, s') \<Longrightarrow> s' = s"
  unfolding update_acs_population_union_view_def Let_def
  by (auto split: option.splits if_splits)

text \<open>
  C1. The loader's patcher has no such check. On a view whose CTEs are named
  \<open>registration_<year>\<close> and whose \<open>union_all\<close> CTE is introduced by an upper-case
  \<open>AS\<close>, neither CTE insertion pattern matches, the union-arm pattern does, and
  \<open>update_union_views\<close> writes back, as an update, SQL with the arm
  \<open>SELECT * FROM a_reg_2024\<close> and no CTE \<open>a_reg_2024\<close>.
\<close>

theorem update_union_view_arm_without_cte:
  "update_union_view (EAVSLoader_init ''2024'' example_config) ''a_reg''
     ''WITH registration_2022 AS (SELECT 1), union_all AS (SELECT * FROM registration_2022) SELECT * FROM union_all''
   = (Updated,
      ''WITH registration_2022 AS (SELECT 1), union_all AS (SELECT * FROM registration_2022)\<newline>UNION ALL\<newline>SELECT * FROM a_reg_2024 SELECT * FROM union_all'')
   \<and> sublist ''SELECT * FROM a_reg_2024''
        ''WITH registration_2022 AS (SELECT 1), union_all AS (SELECT * FROM registration_2022)\<newline>UNION ALL\<newline>SELECT * FROM a_reg_2024 SELECT * FROM union_all''
   \<and> \<not> sublist ''a_reg_2024 AS (''
        ''WITH registration_2022 AS (SELECT 1), union_all AS (SELECT * FROM registration_2022)\<newline>UNION ALL\<newline>SELECT * FROM a_reg_2024 SELECT * FROM union_all''"
  by code_simp

section \<open>Looking a year up under either key\<close>

lemma digit_not_sign_or_space:
  "is_digit c \<Longrightarrow> \<not> is_int_space c \<and> c \<noteq> CHR ''-'' \<and> c \<noteq> CHR ''+''"
  by (auto simp: is_digit_def is_int_space_def Let_def)

lemma py_int_four_digits:
  assumes "length y = 4" "\<forall>c \<in> set y. is_digit c"
  shows "py_int y = Inr (decimal y)"
proof -
  from assms(1) obtain a b c d where y: "y = [a, b, c, d]"
    by (auto simp: length_Suc_conv numeral_eq_Suc)
  with assms(2) have dg: "is_digit a" "is_digit b" "is_digit c" "is_digit d" by simp_all
  then show ?thesis
    unfolding y py_int_def decimal_def int_literal_def Let_def
    using digit_not_sign_or_space [of a] digit_not_sign_or_space [of d]
    by simp
qed

text \<open>
  C3, as the code has it. For a year of four digits \<open>int\<close> succeeds, and a mapping
  stored under the string key or under the integer key is found; where neither is
  stored the lookup gives the empty dict. The loader's \<open>_generate_year_cte\<close> asks for
  the string key first, while \<open>generate_union_select\<close> and \<open>generate_view_sql\<close>
  ask for the integer key first.
\<close>

theorem year_lookup_either_key:
  assumes "length y = 4" and "\<forall>c \<in> set y. is_digit c"
  shows "loader_year_fields m y =
           Inr (case map_of m (KStr y) of
                  Some e \<Rightarrow> e
                | None \<Rightarrow> (case map_of m (KInt (decimal y)) of Some e \<Rightarrow> e | None \<Rightarrow> EYear []))
         \<and> generator_year_mappings m y =
           Inr (case map_of m (KInt (decimal y)) of
                  Some e \<Rightarrow> e
                | None \<Rightarrow> (case map_of m (KStr y) of Some e \<Rightarrow> e | None \<Rightarrow> EYear []))"
  using py_int_four_digits [OF assms]
  by (simp add: loader_year_fields_def generator_year_mappings_def dict_get_def)

theorem year_lookup_either_key_witness:
  "loader_year_fields [(KInt 2024, EYear [(''total_reg'', YStr ''A1a'')])] ''2024''
     = Inr (EYear [(''total_reg'', YStr ''A1a'')])
   \<and> generator_year_mappings [(KStr ''2024'', EYear [(''total_reg'', YStr ''A1a'')])] ''2024''
     = Inr (EYear [(''total_reg'', YStr ''A1a'')])"
proof -
  have 1: "length ''2024'' = 4" by simp
  have 2: "\<forall>c \<in> set ''2024''. is_digit c" by (simp add: is_digit_def)
  have 3: "decimal ''2024'' = 2024" by (simp add: decimal_def digit_val_def)
  show ?thesis
    using year_lookup_either_key [OF 1 2, of "[(KInt 2024, EYear [(''total_reg'', YStr ''A1a'')])]"]
      year_lookup_either_key [OF 1 2, of "[(KStr ''2024'', EYear [(''total_reg'', YStr ''A1a'')])]"]
    by (simp add: 3)
qed

text \<open>
  With a mapping stored under both keys, the generator returns the one under the
  integer key, not the one under the string key.
\<close>

theorem generator_prefers_integer_key:
  "generator_year_mappings
     [(KStr ''2024'', EYear [(''total_reg'', YStr ''from_string_key'')]),
      (KInt 2024, EYear [(''total_reg'', YStr ''from_integer_key'')])] ''2024''
   = Inr (EYear [(''total_reg'', YStr ''from_integer_key'')])"
  by code_simp

section \<open>NULL for unmapped fields\<close>

lemma select_loop_closed:
  "select_loop (EYear d) std_fields selects =
     Inr (selects @ map (\<lambda>f. field_select (dict_get d f YNull) f)
                        (filter (\<lambda>f. f \<notin> set base_fields) std_fields))"
  by (induction std_fields arbitrary: selects) (simp_all add: entry_get_def)

lemma cte_selections_closed:
  "cte_selections (EYear d) std_fields selections =
     Inr (selections @ map (\<lambda>f. cte_field (dict_get d f YNull) f)
                           (filter (\<lambda>f. f \<noteq> ''election_year'') std_fields))"
  by (induction std_fields arbitrary: selections) (simp_all add: entry_get_def)

lemma field_select_cases:
  "field_select (dict_get d f YNull) f =
     (case map_of d f of
        None \<Rightarrow> ''NULL''
      | Some YNull \<Rightarrow> ''NULL''
      | Some (YStr s) \<Rightarrow> if s = ''null'' then ''NULL'' else s
      | Some (YInt n) \<Rightarrow> str_int n
      | Some (YBool b) \<Rightarrow> if b then ''True'' else ''False''
      | Some (YOther t s) \<Rightarrow> s) @ '' as '' @ f"
  by (simp add: field_select_def dict_get_def split: option.splits yval.splits)

lemma cte_field_cases:
  "cte_field (dict_get d f YNull) f =
     (case map_of d f of
        None \<Rightarrow> ''NULL''
      | Some YNull \<Rightarrow> ''NULL''
      | Some (YStr s) \<Rightarrow> if s = [] \<or> s = ''null'' then ''NULL'' else s
      | Some (YInt n) \<Rightarrow> if n = 0 then ''NULL'' else str_int n
      | Some (YBool b) \<Rightarrow> if b then ''True'' else ''NULL''
      | Some (YOther t s) \<Rightarrow> if t then s else ''NULL'') @ '' AS '' @ f"
  by (simp add: cte_field_def dict_get_def split: option.splits yval.splits)

text \<open>
  C4, as the code has it. Let the year's mapping, as the lookup finds it in the
  mapping store, be a dict. The block \<open>generate_union_select\<close> returns has, after the
  base projection, one select item for every standard field that is not a base
  field, in declared order: \<open>NULL as <field>\<close> when the year's mapping has no value
  for the field, has null, or has the string \<open>'null'\<close>, and the text of the value
  \<open>as <field>\<close> otherwise. The CTE the loader's \<open>_generate_year_cte\<close> returns has,
  after the year literal, one item for every standard field other than
  \<open>election_year\<close>: \<open>NULL AS <field>\<close> in those cases and for every other value
  that counts as false (the empty string, 0, false, an empty list or dict), and the
  text of the value \<open>AS <field>\<close> otherwise.
\<close>

theorem null_fallback:
  "(generator_year_mappings (dict_get (gconfig self) mapping_key []) y = Inr (EYear d)
    \<and> entry_iter (get_standard_fields self mapping_key) = Inr std_fields
    \<longrightarrow> generate_union_select self y mapping_key section_code =
         Inr (''-- '' @ y @ '' Data\<newline>SELECT \<newline>  ''
              @ str_join '',\<newline>  ''
                  ([''fips'', quote @ y @ quote @ '' as election_year'', ''state'', ''county'',
                    ''state_abbr'', ''county_name'']
                   @ map (\<lambda>f. (case map_of d f of
                                  None \<Rightarrow> ''NULL''
                                | Some YNull \<Rightarrow> ''NULL''
                                | Some (YStr s) \<Rightarrow> if s = ''null'' then ''NULL'' else s
                                | Some (YInt n) \<Rightarrow> str_int n
                                | Some (YBool b) \<Rightarrow> if b then ''True'' else ''False''
                                | Some (YOther t s) \<Rightarrow> s) @ '' as '' @ f)
                         (filter (\<lambda>f. f \<notin> set base_fields) std_fields))
              @ ''\<newline>FROM '' @ from_clause self y section_code))
   \<and> (map_of config_map section = Some config_key
      \<and> map_of (config loader) config_key = Some m
      \<and> loader_year_fields m (year loader) = Inr (EYear d')
      \<and> d' \<noteq> []
      \<and> entry_iter (dict_get m (KStr ''standard_fields'') (EFields [])) = Inr loader_fields
      \<longrightarrow> generate_year_cte loader section =
           Inr (Some (year_cte_text loader section
                  ([quote @ year loader @ quote @ '' AS election_year'']
                   @ map (\<lambda>f. (case map_of d' f of
                                  None \<Rightarrow> ''NULL''
                                | Some YNull \<Rightarrow> ''NULL''
                                | Some (YStr s) \<Rightarrow> if s = [] \<or> s = ''null'' then ''NULL'' else s
                                | Some (YInt n) \<Rightarrow> if n = 0 then ''NULL'' else str_int n
                                | Some (YBool b) \<Rightarrow> if b then ''True'' else ''NULL''
                                | Some (YOther t s) \<Rightarrow> if t then s else ''NULL'') @ '' AS '' @ f)
                         (filter (\<lambda>f. f \<noteq> ''election_year'') loader_fields)))))"
proof (intro conjI impI)
  assume a: "generator_year_mappings (dict_get (gconfig self) mapping_key []) y = Inr (EYear d)
             \<and> entry_iter (get_standard_fields self mapping_key) = Inr std_fields"
  then have "union_selects self y mapping_key =
      Inr ([''fips'', quote @ y @ quote @ '' as election_year'', ''state'', ''county'',
            ''state_abbr'', ''county_name'']
           @ map (\<lambda>f. field_select (dict_get d f YNull) f)
                 (filter (\<lambda>f. f \<notin> set base_fields) std_fields))"
    unfolding union_selects_def by (simp add: select_loop_closed)
  then show "generate_union_select self y mapping_key section_code =
         Inr (''-- '' @ y @ '' Data\<newline>SELECT \<newline>  ''
              @ str_join '',\<newline>  ''
                  ([''fips'', quote @ y @ quote @ '' as election_year'', ''state'', ''county'',
                    ''state_abbr'', ''county_name'']
                   @ map (\<lambda>f. (case map_of d f of
                                  None \<Rightarrow> ''NULL''
                                | Some YNull \<Rightarrow> ''NULL''
                                | Some (YStr s) \<Rightarrow> if s = ''null'' then ''NULL'' else s
                                | Some (YInt n) \<Rightarrow> str_int n
                                | Some (YBool b) \<Rightarrow> if b then ''True'' else ''False''
                                | Some (YOther t s) \<Rightarrow> s) @ '' as '' @ f)
                         (filter (\<lambda>f. f \<notin> set base_fields) std_fields))
              @ ''\<newline>FROM '' @ from_clause self y section_code)"
    unfolding generate_union_select_def field_select_cases by simp
next
  assume b: "map_of config_map section = Some config_key
      \<and> map_of (config loader) config_key = Some m
      \<and> loader_year_fields m (year loader) = Inr (EYear d')
      \<and> d' \<noteq> []
      \<and> entry_iter (dict_get m (KStr ''standard_fields'') (EFields [])) = Inr loader_fields"
  then show "generate_year_cte loader section =
           Inr (Some (year_cte_text loader section
                  ([quote @ year loader @ quote @ '' AS election_year'']
                   @ map (\<lambda>f. (case map_of d' f of
                                  None \<Rightarrow> ''NULL''
                                | Some YNull \<Rightarrow> ''NULL''
                                | Some (YStr s) \<Rightarrow> if s = [] \<or> s = ''null'' then ''NULL'' else s
                                | Some (YInt n) \<Rightarrow> if n = 0 then ''NULL'' else str_int n
                                | Some (YBool b) \<Rightarrow> if b then ''True'' else ''NULL''
                                | Some (YOther t s) \<Rightarrow> if t then s else ''NULL'') @ '' AS '' @ f)
                         (filter (\<lambda>f. f \<noteq> ''election_year'') loader_fields))))"
    unfolding generate_year_cte_def cte_field_cases [symmetric]
    by (simp add: cte_selections_closed entry_falsy_def)
qed

theorem null_fallback_witness:
  "generate_union_select example_generator ''2016'' ''X'' ''a_reg''
   = Inr (''-- 2016 Data\<newline>SELECT \<newline>  fips,\<newline>  '' @ quote @ ''2016'' @ quote
          @ '' as election_year,\<newline>  state,\<newline>  county,\<newline>  state_abbr,\<newline>  county_name,\<newline>  col_a as a,\<newline>  NULL as b\<newline>FROM ''
          @ backtick @ ''eavs-392800.eavs_2016.eavs_county_16_A_REG'' @ backtick)
   \<and> generate_year_cte (EAVSLoader_init ''2024'' falsy_source_config) ''a_reg''
   = Inr (Some (''  a_reg_2024 AS (\<newline>  SELECT\<newline>    '' @ quote @ ''2024'' @ quote
               @ '' AS election_year,\<newline>    FIPSCode AS fips,\<newline>    NULL AS total_reg,\<newline>    NULL AS active_reg\<newline>  FROM\<newline>    ''
               @ backtick @ ''eavs_2024.eavs_county_24_a_reg'' @ backtick @ ''\<newline>  )''))"
proof -
  define d where "d = [(''a'', YStr ''col_a''), (''b'', YStr ''null'')]"
  define fs where "fs = [''fips'', ''election_year'', ''state'', ''county'', ''a'', ''b'']"
  define m where
    "m = [(KStr ''standard_fields'', EFields [''fips'', ''election_year'', ''total_reg'', ''active_reg'']),
          (KInt 2024, EYear [(''fips'', YStr ''FIPSCode''), (''total_reg'', YInt 0),
                             (''active_reg'', YBool False)])]"
  define d' where
    "d' = [(''fips'', YStr ''FIPSCode''), (''total_reg'', YInt 0), (''active_reg'', YBool False)]"
  define lfs where "lfs = [''fips'', ''election_year'', ''total_reg'', ''active_reg'']"
  define loader where "loader = EAVSLoader_init ''2024'' falsy_source_config"
  have g1: "generator_year_mappings (dict_get (gconfig example_generator) ''X'' []) ''2016'' = Inr (EYear d)"
    unfolding d_def by code_simp
  have g2: "entry_iter (get_standard_fields example_generator ''X'') = Inr fs"
    unfolding fs_def by code_simp
  have l1: "map_of config_map ''a_reg'' = Some ''registration_mappings''"
    by code_simp
  have l2: "map_of (config loader) ''registration_mappings'' = Some m"
    unfolding loader_def m_def by code_simp
  have l3: "loader_year_fields m (year loader) = Inr (EYear d')"
    unfolding loader_def m_def d'_def by code_simp
  have l4: "d' \<noteq> []"
    unfolding d'_def by simp
  have l5: "entry_iter (dict_get m (KStr ''standard_fields'') (EFields [])) = Inr lfs"
    unfolding m_def lfs_def by code_simp
  note nf = null_fallback [of example_generator "''X''" "''2016''" d fs "''a_reg''" "''a_reg''"
                              "''registration_mappings''" loader m d' lfs]
  from nf g1 g2 have 1: "generate_union_select example_generator ''2016'' ''X'' ''a_reg'' =
         Inr (''-- '' @ ''2016'' @ '' Data\<newline>SELECT \<newline>  ''
              @ str_join '',\<newline>  ''
                  ([''fips'', quote @ ''2016'' @ quote @ '' as election_year'', ''state'', ''county'',
                    ''state_abbr'', ''county_name'']
                   @ map (\<lambda>f. (case map_of d f of
                                  None \<Rightarrow> ''NULL''
                                | Some YNull \<Rightarrow> ''NULL''
                                | Some (YStr s) \<Rightarrow> if s = ''null'' then ''NULL'' else s
                                | Some (YInt n) \<Rightarrow> str_int n
                                | Some (YBool b) \<Rightarrow> if b then ''True'' else ''False''
                                | Some (YOther t s) \<Rightarrow> s) @ '' as '' @ f)
                         (filter (\<lambda>f. f \<notin> set base_fields) fs))
              @ ''\<newline>FROM '' @ from_clause example_generator ''2016'' ''a_reg'')"
    by blast
  from nf l1 l2 l3 l4 l5 have 2: "generate_year_cte loader ''a_reg'' =
           Inr (Some (year_cte_text loader ''a_reg''
                  ([quote @ year loader @ quote @ '' AS election_year'']
                   @ map (\<lambda>f. (case map_of d' f of
                                  None \<Rightarrow> ''NULL''
                                | Some YNull \<Rightarrow> ''NULL''
                                | Some (YStr s) \<Rightarrow> if s = [] \<or> s = ''null'' then ''NULL'' else s
                                | Some (YInt n) \<Rightarrow> if n = 0 then ''NULL'' else str_int n
                                | Some (YBool b) \<Rightarrow> if b then ''True'' else ''NULL''
                                | Some (YOther t s) \<Rightarrow> if t then s else ''NULL'') @ '' AS '' @ f)
                         (filter (\<lambda>f. f \<noteq> ''election_year'') lfs))))"
    by blast
  show ?thesis
    unfolding 1 2 [unfolded loader_def] d_def fs_def d'_def lfs_def
    by code_simp
qed

text \<open>
  The loader renders a field whose mapping value is the empty string as NULL, though
  the value is neither \<open>'null'\<close> nor absent.
\<close>

theorem loader_empty_source_is_null:
  "generate_year_cte (EAVSLoader_init ''2024'' empty_source_config) ''a_reg''
   = Inr (Some (''  a_reg_2024 AS (\<newline>  SELECT\<newline>    '' @ quote @ ''2024'' @ quote
               @ '' AS election_year,\<newline>    FIPSCode AS fips,\<newline>    NULL AS total_reg\<newline>  FROM\<newline>    ''
               @ backtick @ ''eavs_2024.eavs_county_24_a_reg'' @ backtick @ ''\<newline>  )''))
   \<and> map_of [(''fips'', YStr ''FIPSCode''), (''total_reg'', YStr [])] ''total_reg'' = Some (YStr [])"
  by code_simp

section \<open>The same columns for every year\<close>





























section \<open>Years whose block cannot be generated\<close>


lemma collect_blocks_closed:
  "collect_blocks self k sc years (warned, blocks) =
     (warned @ filter (\<lambda>y. isl (generate_union_select self y k sc)) years,
      blocks @ concat (map (\<lambda>y. case generate_union_select self y k sc of
                                   Inr b \<Rightarrow> [b] | Inl e \<Rightarrow> []) years))"
  by (induction years arbitrary: warned blocks) (auto split: sum.splits)

lemma no_blocks_iff:
  "concat (map (\<lambda>y. case generate_union_select self y k sc of Inr b \<Rightarrow> [b] | Inl e \<Rightarrow> []) years) = []
   \<longleftrightarrow> (\<forall>y \<in> set years. isl (generate_union_select self y k sc))"
  by (induction years) (auto split: sum.splits)

text \<open>
  C6. \<open>generate_full_union_view\<close> raises when the mapping key has no years, and
  when no year yields a block; otherwise it returns the view built from the blocks
  of the years that could be generated, in order, and has printed a warning for each
  year that raised. It raises in exactly those two cases, so the SQL it returns
  always holds at least one block.
\<close>

theorem partial_generation_tolerance:
  "generate_full_union_view self mapping_key section_code view_name =
     (let years = get_all_years self mapping_key;
          union_blocks = concat (map (\<lambda>y. case generate_union_select self y mapping_key section_code of
                                             Inr select_block \<Rightarrow> [select_block] | Inl e \<Rightarrow> []) years);
          warned = filter (\<lambda>y. isl (generate_union_select self y mapping_key section_code)) years
      in if years = [] then ([], Inl (ValueError (''No years found for '' @ mapping_key)))
         else if union_blocks = []
              then (warned, Inl (ValueError (''Could not generate any union blocks for '' @ mapping_key)))
              else (warned, Inr (view_header self view_name
                                 @ str_join ''\<newline>\<newline>UNION ALL\<newline>\<newline>'' union_blocks)))
   \<and> (isl (snd (generate_full_union_view self mapping_key section_code view_name))
        \<longleftrightarrow> get_all_years self mapping_key = []
            \<or> (\<forall>y \<in> set (get_all_years self mapping_key).
                  isl (generate_union_select self y mapping_key section_code)))"
proof -
  define years where "years = get_all_years self mapping_key"
  define gen where "gen y = generate_union_select self y mapping_key section_code" for y
  define union_blocks where
    "union_blocks = concat (map (\<lambda>y. case gen y of Inr b \<Rightarrow> [b] | Inl e \<Rightarrow> []) years)"
  define warned where "warned = filter (\<lambda>y. isl (gen y)) years"
  have cb: "collect_blocks self mapping_key section_code years ([], []) = (warned, union_blocks)"
    unfolding collect_blocks_closed warned_def union_blocks_def gen_def by simp
  have eq: "generate_full_union_view self mapping_key section_code view_name =
     (if years = [] then ([], Inl (ValueError (''No years found for '' @ mapping_key)))
      else if union_blocks = []
           then (warned, Inl (ValueError (''Could not generate any union blocks for '' @ mapping_key)))
           else (warned, Inr (view_header self view_name
                              @ str_join ''\<newline>\<newline>UNION ALL\<newline>\<newline>'' union_blocks)))"
    unfolding generate_full_union_view_def Let_def years_def [symmetric] cb by simp
  have nb: "union_blocks = [] \<longleftrightarrow> (\<forall>y \<in> set years. isl (gen y))"
    unfolding union_blocks_def gen_def by (rule no_blocks_iff)
  have "isl (snd (generate_full_union_view self mapping_key section_code view_name))
        \<longleftrightarrow> years = [] \<or> (\<forall>y \<in> set years. isl (gen y))"
    unfolding eq using nb by auto
  with eq show ?thesis
    unfolding Let_def years_def union_blocks_def warned_def gen_def by blast
qed

theorem partial_generation_tolerance_witness:
  "get_all_years example_generator ''X'' = [''2016'', ''2018'', ''2020'', ''notes'']
   \<and> isl (generate_union_select example_generator ''2020'' ''X'' ''a_reg'')
   \<and> \<not> isl (snd (generate_full_union_view example_generator ''X'' ''a_reg'' ''eavs_county_reg_union''))
   \<and> isl (snd (generate_full_union_view example_generator ''Y'' ''a_reg'' ''eavs_county_reg_union''))"
proof -
  have y: "get_all_years example_generator ''X'' = [''2016'', ''2018'', ''2020'', ''notes'']"
    by code_simp
  have n: "get_all_years example_generator ''Y'' = []"
    by code_simp
  have g: "\<not> isl (generate_union_select example_generator ''2016'' ''X'' ''a_reg'')"
    by code_simp
  have b: "isl (generate_union_select example_generator ''2020'' ''X'' ''a_reg'')"
    by code_simp
  have 1: "\<not> isl (snd (generate_full_union_view example_generator ''X'' ''a_reg'' ''eavs_county_reg_union''))"
    using partial_generation_tolerance
            [of example_generator "''X''" "''a_reg''" "''eavs_county_reg_union''", THEN conjunct2]
      y g by simp
  have 2: "isl (snd (generate_full_union_view example_generator ''Y'' ''a_reg'' ''eavs_county_reg_union''))"
    using partial_generation_tolerance
            [of example_generator "''Y''" "''a_reg''" "''eavs_county_reg_union''", THEN conjunct2]
      n by simp
  show ?thesis by (intro conjI y b 1 2)
qed

section \<open>The table a year block reads\<close>

lemma generator_table_is_loader_table_of_upper:
  "get_table_name y section_code = loader_table_name (EAVSLoader_init y cfg) (upper section_code)"
  by (simp add: get_table_name_def loader_table_name_def EAVSLoader_init_def)

text \<open>
  C7. For the year 2016 and the section \<open>a_reg\<close> the generated block reads from
  the table \<open>eavs_county_16_A_REG\<close>, the section in upper case, while the loader
  creates the external table \<open>eavs_county_16_a_reg\<close>.
\<close>

theorem generator_table_name_upper_case:
  "generate_union_select example_generator ''2016'' ''X'' ''a_reg''
   = Inr (''-- 2016 Data\<newline>SELECT \<newline>  fips,\<newline>  '' @ quote @ ''2016'' @ quote
          @ '' as election_year,\<newline>  state,\<newline>  county,\<newline>  state_abbr,\<newline>  county_name,\<newline>  col_a as a,\<newline>  NULL as b\<newline>FROM ''
          @ backtick @ ''eavs-392800.eavs_2016.eavs_county_16_A_REG'' @ backtick)
   \<and> loader_table_id (EAVSLoader_init ''2016'' example_config) ''a_reg''
     = ''eavs-392800.eavs_2016.eavs_county_16_a_reg''"
  by code_simp

end
